theory Spec2Isabelle
  imports Main "HOL-Library.Word"
begin

unbundle bit_operations_syntax

section \<open>Bech32 encoding of Cosmos public keys\<close>

text \<open>
  A shallow embedding of the module that holds \<^verbatim>\<open>decodeBech32Pubkey\<close> and
  \<^verbatim>\<open>encodeBech32Pubkey\<close>. A \<^verbatim>\<open>Uint8Array\<close> is a list of 8-bit words, a
  JavaScript string is a \<^typ>\<open>string\<close>, and \<^verbatim>\<open>throw new Error(msg)\<close> is the left
  summand of a sum type.
\<close>

subsection \<open>Data\<close>

type_synonym byte = "8 word"
type_synonym bytes = "byte list"

text \<open>Every \<^verbatim>\<open>throw\<close> of the module raises a plain \<^verbatim>\<open>Error\<close> carrying a message.\<close>

datatype error = Error string

text \<open>
  Modelled from the spec: the module \<^verbatim>\<open>./types\<close>, which declares \<^verbatim>\<open>pubkeyType\<close>,
  \<^verbatim>\<open>PubKey\<close> and \<^verbatim>\<open>Bech32PubKey\<close>, is not among the sources. The specification
  gives the algorithm tag as the closed enumeration secp256k1, ed25519, sr25519, and a
  public key as a tag with a value; the code stores the value as the base64 text of the
  key bytes. A \<^verbatim>\<open>Bech32PubKey\<close> is a string.
\<close>

datatype pubkeyType = secp256k1 | ed25519 | sr25519

record PubKey =
  type :: pubkeyType
  "value" :: string

type_synonym Bech32PubKey = string

text \<open>
  The codecs of the package \<^verbatim>\<open>@iov/encoding\<close> are external to the repository. The
  embedding takes them as a parameter: a record with one field for each function the
  module calls. A field that can throw returns a sum.
\<close>

record Encoding =
  Bech32_decode :: "string \<Rightarrow> error + (string \<times> bytes)"
  Bech32_encode :: "string \<Rightarrow> bytes \<Rightarrow> error + string"
  toBase64 :: "bytes \<Rightarrow> string"
  fromBase64 :: "string \<Rightarrow> error + bytes"
  toHex :: "bytes \<Rightarrow> string"

subsection \<open>JavaScript primitives the module uses\<close>

text \<open>\<^verbatim>\<open>Array.prototype.join\<close> on an array of strings.\<close>

fun join :: "string \<Rightarrow> string list \<Rightarrow> string" where
  "join sep [] = []"
| "join sep [x] = x"
| "join sep (x # y # ys) = x @ sep @ join sep (y # ys)"

text \<open>
  \<^verbatim>\<open>Uint8Array.prototype.slice(begin, end)\<close> and \<^verbatim>\<open>slice(begin)\<close> for
  indices that are not negative: both ends are clamped to the length of the array, so no
  index is ever read out of range.
\<close>

definition slice_range :: "bytes \<Rightarrow> nat \<Rightarrow> nat \<Rightarrow> bytes" where
  "slice_range xs b e = take (min e (length xs) - min b (length xs)) (drop (min b (length xs)) xs)"

definition slice_from :: "bytes \<Rightarrow> nat \<Rightarrow> bytes" where
  "slice_from xs b = drop (min b (length xs)) xs"

text \<open>
  \<^verbatim>\<open>equal\<close> is the default export of the package \<^verbatim>\<open>fast-deep-equal\<close>. On two
  \<^verbatim>\<open>Uint8Array\<close> values it holds exactly when they have the same length and the same
  element at every index.
\<close>

fun equal_bytes :: "bytes \<Rightarrow> bytes \<Rightarrow> bool" where
  "equal_bytes [] [] = True"
| "equal_bytes (x # xs) (y # ys) = (x = y \<and> equal_bytes xs ys)"
| "equal_bytes _ _ = False"

subsection \<open>Constants of the module\<close>

definition validPubkeyPrefixes :: "string list" where
  "validPubkeyPrefixes = [''cosmospub'', ''cosmosvalconspub'', ''cosmosvaloperpub'']"

definition isCosmosPubkeyBech32Prefix :: "string \<Rightarrow> bool" where
  "isCosmosPubkeyBech32Prefix prefix \<longleftrightarrow> List.member validPubkeyPrefixes prefix"

text \<open>The three markers, written in the source as the hex literals
  \<^verbatim>\<open>eb5ae98721\<close>, \<^verbatim>\<open>1624de6420\<close> and \<^verbatim>\<open>0dfb1005\<close>.\<close>

definition pubkeyAminoPrefixSecp256k1 :: bytes where
  "pubkeyAminoPrefixSecp256k1 = [0xEB, 0x5A, 0xE9, 0x87, 0x21]"

definition pubkeyAminoPrefixEd25519 :: bytes where
  "pubkeyAminoPrefixEd25519 = [0x16, 0x24, 0xDE, 0x64, 0x20]"

definition pubkeyAminoPrefixSr25519 :: bytes where
  "pubkeyAminoPrefixSr25519 = [0x0D, 0xFB, 0x10, 0x05]"

definition pubkeyAminoPrefixLength :: nat where
  "pubkeyAminoPrefixLength = length pubkeyAminoPrefixSecp256k1"

subsection \<open>The two operations\<close>

definition decodeBech32Pubkey :: "Encoding \<Rightarrow> Bech32PubKey \<Rightarrow> error + PubKey" where
  "decodeBech32Pubkey L bech =
    (case Bech32_decode L bech of
      Inl e \<Rightarrow> Inl e
    | Inr (prefix, data) \<Rightarrow>
        if \<not> isCosmosPubkeyBech32Prefix prefix then
          Inl (Error (''Invalid bech32 prefix. Must be one of ''
                      @ join '', '' validPubkeyPrefixes @ ''.''))
        else
          let aminoPrefix = slice_range data 0 pubkeyAminoPrefixLength;
              rest = slice_from data pubkeyAminoPrefixLength
          in
            if equal_bytes aminoPrefix pubkeyAminoPrefixSecp256k1 then
              if length rest \<noteq> 33 then
                Inl (Error ''Invalid rest data length. Expected 33 bytes (compressed secp256k1 pubkey).'')
              else Inr \<lparr>type = secp256k1, value = toBase64 L rest\<rparr>
            else if equal_bytes aminoPrefix pubkeyAminoPrefixEd25519 then
              if length rest \<noteq> 32 then
                Inl (Error ''Invalid rest data length. Expected 32 bytes (Ed25519 pubkey).'')
              else Inr \<lparr>type = ed25519, value = toBase64 L rest\<rparr>
            else if equal_bytes aminoPrefix pubkeyAminoPrefixSr25519 then
              if length rest \<noteq> 32 then
                Inl (Error ''Invalid rest data length. Expected 32 bytes (Sr25519 pubkey).'')
              else Inr \<lparr>type = sr25519, value = toBase64 L rest\<rparr>
            else
              Inl (Error (''Unsupported Pubkey type. Amino prefix: '' @ toHex L aminoPrefix)))"

definition encodeBech32Pubkey :: "Encoding \<Rightarrow> PubKey \<Rightarrow> string \<Rightarrow> error + Bech32PubKey" where
  "encodeBech32Pubkey L pubkey prefix =
    (case type pubkey of
      secp256k1 \<Rightarrow>
        (case fromBase64 L (value pubkey) of
          Inl e \<Rightarrow> Inl e
        | Inr keyBytes \<Rightarrow> Bech32_encode L prefix (pubkeyAminoPrefixSecp256k1 @ keyBytes))
    | _ \<Rightarrow> Inl (Error ''Unsupported pubkey type''))"

section \<open>A reference instance of the external codecs\<close>

text \<open>
  The theorems below hold for every value of the parameter. To apply them to concrete
  texts, this section gives one value: lower-case hex, base64 with padding after
  RFC 4648, and bech32 after BIP 173 with its limit of 90 characters, the bytes regrouped
  into 5-bit words as the bech32 package does. For the compressed key with the base64
  text \<^verbatim>\<open>A08EGB7ro1ORuFhjOnZcSgwYlpe0DSFjVNUIkNNQxwKQ\<close> and the prefix
  \<^verbatim>\<open>cosmospub\<close> it computes the bech32 text
  \<^verbatim>\<open>cosmospub1addwnpepqd8sgxq7aw348ydctp3n5ajufgxp395hksxjzc6565yfp56scupfqhlgyg5\<close>
  (lemma \<open>ref_encode_key\<close>). No theorem depends on the text of an error message of
  this section. Recursion carries an accumulator and no \<^theory_text>\<open>let\<close>, so that
  the simplifier evaluates a call on literals step by step.
\<close>

subsection \<open>Hex\<close>

definition hexDigits :: string where
  "hexDigits = ''0123456789abcdef''"

fun ref_toHex :: "bytes \<Rightarrow> string" where
  "ref_toHex [] = []"
| "ref_toHex (b # bs) = hexDigits ! (unat b div 16) # hexDigits ! (unat b mod 16) # ref_toHex bs"

text \<open>The index of a character in an alphabet, counted from \<open>i\<close>.\<close>

fun index_from :: "nat \<Rightarrow> string \<Rightarrow> char \<Rightarrow> nat option" where
  "index_from i [] c = None"
| "index_from i (x # xs) c = (if x = c then Some i else index_from (i + 1) xs c)"

subsection \<open>Base64\<close>

definition base64Alphabet :: string where
  "base64Alphabet = ''ABCDEFGHIJKLMNOPQRSTUVWXYZabcdefghijklmnopqrstuvwxyz0123456789+/''"

fun ref_toBase64 :: "bytes \<Rightarrow> string" where
  "ref_toBase64 (a # b # c # rest) =
     base64Alphabet ! (unat a div 4) #
     base64Alphabet ! (unat a mod 4 * 16 + unat b div 16) #
     base64Alphabet ! (unat b mod 16 * 4 + unat c div 64) #
     base64Alphabet ! (unat c mod 64) # ref_toBase64 rest"
| "ref_toBase64 [a, b] =
     [base64Alphabet ! (unat a div 4), base64Alphabet ! (unat a mod 4 * 16 + unat b div 16),
      base64Alphabet ! (unat b mod 16 * 4), CHR ''='']"
| "ref_toBase64 [a] =
     [base64Alphabet ! (unat a div 4), base64Alphabet ! (unat a mod 4 * 16), CHR ''='', CHR ''='']"
| "ref_toBase64 [] = []"

text \<open>Four 6-bit values give three bytes; the last group of a text may end with one or
  two padding characters and then gives two bytes or one.\<close>

fun base64Quad :: "nat option \<Rightarrow> nat option \<Rightarrow> nat option \<Rightarrow> nat option \<Rightarrow> bytes option" where
  "base64Quad (Some v1) (Some v2) (Some v3) (Some v4) =
     Some [of_nat (v1 * 4 + v2 div 16), of_nat (v2 mod 16 * 16 + v3 div 4), of_nat (v3 mod 4 * 64 + v4)]"
| "base64Quad _ _ _ _ = None"

fun base64Last :: "char \<Rightarrow> char \<Rightarrow> char \<Rightarrow> char \<Rightarrow> bytes option" where
  "base64Last c1 c2 c3 c4 =
     (if c3 = CHR ''='' \<and> c4 = CHR ''='' then
        map_option (take 1) (base64Quad (index_from 0 base64Alphabet c1) (index_from 0 base64Alphabet c2) (Some 0) (Some 0))
      else if c4 = CHR ''='' then
        map_option (take 2) (base64Quad (index_from 0 base64Alphabet c1) (index_from 0 base64Alphabet c2)
                               (index_from 0 base64Alphabet c3) (Some 0))
      else base64Quad (index_from 0 base64Alphabet c1) (index_from 0 base64Alphabet c2)
             (index_from 0 base64Alphabet c3) (index_from 0 base64Alphabet c4))"

fun base64Append :: "bytes option \<Rightarrow> error + bytes \<Rightarrow> error + bytes" where
  "base64Append None r = Inl (Error ''Invalid base64 string format'')"
| "base64Append (Some bs) (Inl e) = Inl e"
| "base64Append (Some bs) (Inr bs') = Inr (bs @ bs')"

text \<open>The bytes of a text of the right format; its length must be a multiple of four.\<close>

fun toByteArray :: "string \<Rightarrow> error + bytes" where
  "toByteArray (c1 # c2 # c3 # c4 # rest) =
     (if rest = [] then base64Append (base64Last c1 c2 c3 c4) (Inr [])
      else base64Append
             (base64Quad (index_from 0 base64Alphabet c1) (index_from 0 base64Alphabet c2)
                (index_from 0 base64Alphabet c3) (index_from 0 base64Alphabet c4))
             (toByteArray rest))"
| "toByteArray [] = Inr []"
| "toByteArray _ = Inl (Error ''Invalid string. Length must be a multiple of 4'')"

text \<open>
  The format that is tested first: characters of the alphabet, then at most two padding
  characters and nothing after them.
\<close>

definition isBase64Char :: "char \<Rightarrow> bool" where
  "isBase64Char c \<longleftrightarrow>
     (97::nat) \<le> of_char c \<and> of_char c \<le> (122::nat)
     \<or> (65::nat) \<le> of_char c \<and> of_char c \<le> (90::nat)
     \<or> (48::nat) \<le> of_char c \<and> of_char c \<le> (57::nat)
     \<or> c = CHR ''+'' \<or> c = CHR ''/''"

fun base64Format :: "string \<Rightarrow> bool" where
  "base64Format [] = True"
| "base64Format (c # cs) =
     (if isBase64Char c then base64Format cs else c = CHR ''='' \<and> (cs = [] \<or> cs = ''=''))"

definition ref_fromBase64 :: "string \<Rightarrow> error + bytes" where
  "ref_fromBase64 s =
     (if base64Format s then toByteArray s else Inl (Error ''Invalid base64 string format''))"

subsection \<open>Bech32\<close>

definition bech32Alphabet :: string where
  "bech32Alphabet = ''qpzry9x8gf2tvdw0s3jn54khce6mua7l''"

text \<open>One step of the checksum polynomial over 30 bits, on the 32-bit integers of
  JavaScript's bit operations.\<close>

definition polymodStep :: "32 word \<Rightarrow> 32 word" where
  "polymodStep pre =
     push_bit 5 (pre AND 0x1FFFFFF)
       XOR (if bit (drop_bit 25 pre) 0 then 0x3b6a57b2 else 0)
       XOR (if bit (drop_bit 25 pre) 1 then 0x26508e6d else 0)
       XOR (if bit (drop_bit 25 pre) 2 then 0x1ea119fa else 0)
       XOR (if bit (drop_bit 25 pre) 3 then 0x3d4233dd else 0)
       XOR (if bit (drop_bit 25 pre) 4 then 0x2a1462b3 else 0)"

fun polymod :: "nat list \<Rightarrow> 32 word \<Rightarrow> 32 word" where
  "polymod [] chk = chk"
| "polymod (v # vs) chk = polymod vs (polymodStep chk XOR of_nat v)"

text \<open>The checksum state after the prefix: the high bits of its characters, a zero, and
  their low five bits.\<close>

definition prefixChk :: "string \<Rightarrow> 32 word" where
  "prefixChk prefix =
     polymod (map (\<lambda>c. of_char c mod 32) prefix)
       (polymodStep (polymod (map (\<lambda>c. of_char c div 32) prefix) 1))"

text \<open>
  Regrouping of bits, from groups of \<open>inBits\<close> to groups of \<open>outBits\<close>: \<open>v\<close> holds
  the \<open>bits\<close> bits that are read and not yet written. \<open>toWords\<close> goes from 8 to 5
  and pads the last group with zeros; \<open>fromWords\<close> goes from 5 to 8 and rejects a
  padding of five bits or more and a padding that is not zero.
\<close>

fun convert :: "nat \<Rightarrow> nat \<Rightarrow> nat list \<Rightarrow> nat \<Rightarrow> nat \<Rightarrow> nat list \<Rightarrow> nat \<times> nat \<times> nat list" where
  "convert inBits outBits [] v bits acc =
     (if 0 < outBits \<and> outBits \<le> bits then
        convert inBits outBits [] (v mod 2 ^ (bits - outBits)) (bits - outBits)
          (acc @ [v div 2 ^ (bits - outBits)])
      else (v, bits, acc))"
| "convert inBits outBits (d # ds) v bits acc =
     (if 0 < outBits \<and> outBits \<le> bits then
        convert inBits outBits (d # ds) (v mod 2 ^ (bits - outBits)) (bits - outBits)
          (acc @ [v div 2 ^ (bits - outBits)])
      else convert inBits outBits ds (v * 2 ^ inBits + d) (bits + inBits) acc)"

fun toWordsPad :: "nat \<times> nat \<times> nat list \<Rightarrow> nat list" where
  "toWordsPad (v, bits, res) = (if 0 < bits then res @ [v * 2 ^ (5 - bits) mod 32] else res)"

definition toWords :: "bytes \<Rightarrow> nat list" where
  "toWords data = toWordsPad (convert 8 5 (map unat data) 0 0 [])"

fun fromWordsPad :: "nat \<times> nat \<times> nat list \<Rightarrow> error + bytes" where
  "fromWordsPad (v, bits, res) =
     (if 5 \<le> bits then Inl (Error ''Excess padding'')
      else if v * 2 ^ (8 - bits) mod 256 \<noteq> 0 then Inl (Error ''Non-zero padding'')
      else Inr (map of_nat res))"

definition fromWords :: "nat list \<Rightarrow> error + bytes" where
  "fromWords ws = fromWordsPad (convert 5 8 ws 0 0 [])"

text \<open>The six 5-bit groups of the final checksum, highest first.\<close>

definition checksumWords :: "32 word \<Rightarrow> nat list" where
  "checksumWords chk =
     [unat (drop_bit 25 chk AND 0x1f), unat (drop_bit 20 chk AND 0x1f), unat (drop_bit 15 chk AND 0x1f),
      unat (drop_bit 10 chk AND 0x1f), unat (drop_bit 5 chk AND 0x1f), unat (chk AND 0x1f)]"

text \<open>A prefix may hold the characters with codes 33 to 126 only.\<close>

definition invalidPrefix :: "string \<Rightarrow> bool" where
  "invalidPrefix prefix = list_ex (\<lambda>c. of_char c < (33::nat) \<or> (126::nat) < of_char c) prefix"

definition toLowerCase :: "string \<Rightarrow> string" where
  "toLowerCase s = map (\<lambda>c. if (65::nat) \<le> of_char c \<and> of_char c \<le> (90::nat) then char_of (of_char c + (32::nat)) else c) s"

definition toUpperCase :: "string \<Rightarrow> string" where
  "toUpperCase s = map (\<lambda>c. if (97::nat) \<le> of_char c \<and> of_char c \<le> (122::nat) then char_of (of_char c - (32::nat)) else c) s"

definition encodeWords :: "string \<Rightarrow> nat list \<Rightarrow> error + string" where
  "encodeWords prefix ws =
     (if 90 < length prefix + 7 + length ws then Inl (Error ''Exceeds length limit'')
      else if invalidPrefix prefix then Inl (Error (''Invalid prefix ('' @ prefix @ '')''))
      else Inr (prefix @ ''1'' @ map ((!) bech32Alphabet)
             (ws @ checksumWords (polymod (ws @ [0, 0, 0, 0, 0, 0]) (prefixChk prefix) XOR 1))))"

definition ref_Bech32_encode :: "string \<Rightarrow> bytes \<Rightarrow> error + string" where
  "ref_Bech32_encode prefix data = encodeWords (toLowerCase prefix) (toWords data)"

text \<open>\<^verbatim>\<open>String.prototype.lastIndexOf\<close>, counted from \<open>i\<close>.\<close>

fun lastIndexFrom :: "nat \<Rightarrow> nat option \<Rightarrow> string \<Rightarrow> char \<Rightarrow> nat option" where
  "lastIndexFrom i found [] c = found"
| "lastIndexFrom i found (x # xs) c = lastIndexFrom (i + 1) (if x = c then Some i else found) xs c"

text \<open>The values of the characters after the separator, or the first character that is
  not in the alphabet.\<close>

fun wordValues :: "string \<Rightarrow> nat list \<Rightarrow> char + nat list" where
  "wordValues [] acc = Inr acc"
| "wordValues (c # cs) acc =
     (case index_from 0 bech32Alphabet c of
        None \<Rightarrow> Inl c
      | Some v \<Rightarrow> wordValues cs (acc @ [v]))"

fun decodeData :: "string \<Rightarrow> error + bytes \<Rightarrow> error + (string \<times> bytes)" where
  "decodeData prefix (Inl e) = Inl e"
| "decodeData prefix (Inr data) = Inr (prefix, data)"

text \<open>The checksum covers the prefix and all values; the last six values are the checksum
  and are not part of the data.\<close>

fun decodeWords :: "string \<Rightarrow> string \<Rightarrow> char + nat list \<Rightarrow> error + (string \<times> bytes)" where
  "decodeWords str prefix (Inl c) = Inl (Error (''Unknown character '' @ [c]))"
| "decodeWords str prefix (Inr vs) =
     (if polymod vs (prefixChk prefix) \<noteq> 1 then Inl (Error (''Invalid checksum for '' @ str))
      else decodeData prefix (fromWords (take (length vs - 6) vs)))"

fun decodeSplit :: "string \<Rightarrow> nat option \<Rightarrow> error + (string \<times> bytes)" where
  "decodeSplit str None = Inl (Error (''No separator character for '' @ str))"
| "decodeSplit str (Some split) =
     (if split = 0 then Inl (Error (''Missing prefix for '' @ str))
      else if length (drop (split + 1) str) < 6 then Inl (Error ''Data too short'')
      else if invalidPrefix (take split str) then Inl (Error (''Invalid prefix ('' @ take split str @ '')''))
      else decodeWords str (take split str) (wordValues (drop (split + 1) str) []))"

definition decodeLowered :: "string \<Rightarrow> error + (string \<times> bytes)" where
  "decodeLowered str = decodeSplit str (lastIndexFrom 0 None str CHR ''1'')"

definition ref_Bech32_decode :: "string \<Rightarrow> error + (string \<times> bytes)" where
  "ref_Bech32_decode str =
     (if length str < 8 then Inl (Error (str @ '' too short''))
      else if 90 < length str then Inl (Error ''Exceeds length limit'')
      else if str \<noteq> toLowerCase str \<and> str \<noteq> toUpperCase str then Inl (Error (''Mixed-case string '' @ str))
      else decodeLowered (toLowerCase str))"

text \<open>
  The equations of the recursive functions of this section are taken out of the
  simplifier's default rules, so that a call of a codec is only evaluated where a proof
  asks for it.
\<close>

declare ref_toHex.simps [simp del] index_from.simps [simp del] ref_toBase64.simps [simp del]
  base64Quad.simps [simp del] base64Last.simps [simp del] base64Append.simps [simp del]
  toByteArray.simps [simp del] base64Format.simps [simp del] polymod.simps [simp del]
  convert.simps [simp del]
  toWordsPad.simps [simp del] fromWordsPad.simps [simp del] lastIndexFrom.simps [simp del]
  wordValues.simps [simp del] decodeData.simps [simp del] decodeWords.simps [simp del]
  decodeSplit.simps [simp del]

definition refEncoding :: Encoding where
  "refEncoding = \<lparr>Bech32_decode = ref_Bech32_decode, Bech32_encode = ref_Bech32_encode,
     toBase64 = ref_toBase64, fromBase64 = ref_fromBase64, toHex = ref_toHex\<rparr>"

section \<open>Properties\<close>

subsection \<open>The primitives\<close>

lemma equal_bytes_iff [simp]: "equal_bytes a b \<longleftrightarrow> a = b"
  by (induction a b rule: equal_bytes.induct) simp_all

lemma slice_range_0 [simp]: "slice_range xs 0 n = take n xs"
  by (cases "n \<le> length xs") (simp_all add: slice_range_def min_def)

lemma slice_from_drop [simp]: "slice_from xs n = drop n xs"
  by (cases "n \<le> length xs") (simp_all add: slice_from_def min_def)

lemma pubkeyAminoPrefixLength_5 [simp]: "pubkeyAminoPrefixLength = 5"
  by (simp add: pubkeyAminoPrefixLength_def pubkeyAminoPrefixSecp256k1_def)

lemma isCosmosPubkeyBech32Prefix_iff:
  "isCosmosPubkeyBech32Prefix p \<longleftrightarrow>
     p \<in> {''cosmospub'', ''cosmosvalconspub'', ''cosmosvaloperpub''}"
  by (auto simp: isCosmosPubkeyBech32Prefix_def validPubkeyPrefixes_def)

lemma join_validPubkeyPrefixes:
  "join '', '' validPubkeyPrefixes = ''cosmospub, cosmosvalconspub, cosmosvaloperpub''"
  by (simp add: validPubkeyPrefixes_def)

text \<open>
  The marker of sr25519 has four bytes and the decoder cuts five, so the cut equals that
  marker only when the data is the marker and nothing else.
\<close>

lemma take_eq_Sr25519:
  "take 5 data = pubkeyAminoPrefixSr25519 \<longleftrightarrow> data = pubkeyAminoPrefixSr25519"
proof
  assume cut: "take 5 data = pubkeyAminoPrefixSr25519"
  then have "length (take 5 data) = 4"
    by (simp add: pubkeyAminoPrefixSr25519_def)
  then have "length data = 4"
    by (simp add: min_def split: if_splits)
  with cut show "data = pubkeyAminoPrefixSr25519"
    by simp
next
  assume "data = pubkeyAminoPrefixSr25519"
  then show "take 5 data = pubkeyAminoPrefixSr25519"
    by (simp add: pubkeyAminoPrefixSr25519_def)
qed

lemma markers_distinct:
  "pubkeyAminoPrefixSecp256k1 \<noteq> pubkeyAminoPrefixEd25519"
  "pubkeyAminoPrefixSecp256k1 \<noteq> pubkeyAminoPrefixSr25519"
  "pubkeyAminoPrefixEd25519 \<noteq> pubkeyAminoPrefixSr25519"
  by (simp_all add: pubkeyAminoPrefixSecp256k1_def pubkeyAminoPrefixEd25519_def
      pubkeyAminoPrefixSr25519_def)

subsection \<open>The reference codecs on concrete texts\<close>

lemmas ref_codec_defs =
  hexDigits_def base64Alphabet_def bech32Alphabet_def polymodStep_def prefixChk_def
  toWords_def fromWords_def checksumWords_def invalidPrefix_def toLowerCase_def
  toUpperCase_def encodeWords_def ref_Bech32_encode_def decodeLowered_def
  ref_Bech32_decode_def ref_toHex.simps index_from.simps ref_toBase64.simps base64Quad.simps
  base64Last.simps base64Append.simps toByteArray.simps isBase64Char_def base64Format.simps
  ref_fromBase64_def polymod.simps convert.simps
  toWordsPad.simps fromWordsPad.simps lastIndexFrom.simps wordValues.simps decodeData.simps
  decodeWords.simps decodeSplit.simps

lemma ref_toBase64_key:
  "ref_toBase64
     [0x03, 0x4F, 0x04, 0x18, 0x1E, 0xEB, 0xA3, 0x53, 0x91, 0xB8, 0x58, 0x63,
     0x3A, 0x76, 0x5C, 0x4A, 0x0C, 0x18, 0x96, 0x97, 0xB4, 0x0D, 0x21, 0x63,
     0x54, 0xD5, 0x08, 0x90, 0xD3, 0x50, 0xC7, 0x02, 0x90] =
   ''A08EGB7ro1ORuFhjOnZcSgwYlpe0DSFjVNUIkNNQxwKQ''"
  by (simp add: ref_codec_defs)

lemma ref_fromBase64_key:
  "ref_fromBase64 ''A08EGB7ro1ORuFhjOnZcSgwYlpe0DSFjVNUIkNNQxwKQ'' =
     Inr [0x03, 0x4F, 0x04, 0x18, 0x1E, 0xEB, 0xA3, 0x53, 0x91, 0xB8, 0x58,
         0x63, 0x3A, 0x76, 0x5C, 0x4A, 0x0C, 0x18, 0x96, 0x97, 0xB4, 0x0D,
         0x21, 0x63, 0x54, 0xD5, 0x08, 0x90, 0xD3, 0x50, 0xC7, 0x02, 0x90]"
  by (simp add: ref_codec_defs)

lemma ref_fromBase64_short:
  "ref_fromBase64 ''AQI='' = Inr [0x01, 0x02]"
  by (simp add: ref_codec_defs)

lemma ref_fromBase64_long:
  "ref_fromBase64
     ''BAAAAAAAAAAAAAAAAAAAAAAAAAAAAAAAAAAAAAAAAAAAAAAAAAAAAAAAAAAAAAAAAAAAAAAAAAAAAAAAAAAAAAA='' =
     Inr [0x04, 0x00, 0x00, 0x00, 0x00, 0x00, 0x00, 0x00, 0x00, 0x00, 0x00,
         0x00, 0x00, 0x00, 0x00, 0x00, 0x00, 0x00, 0x00, 0x00, 0x00, 0x00,
         0x00, 0x00, 0x00, 0x00, 0x00, 0x00, 0x00, 0x00, 0x00, 0x00, 0x00,
         0x00, 0x00, 0x00, 0x00, 0x00, 0x00, 0x00, 0x00, 0x00, 0x00, 0x00,
         0x00, 0x00, 0x00, 0x00, 0x00, 0x00, 0x00, 0x00, 0x00, 0x00, 0x00,
         0x00, 0x00, 0x00, 0x00, 0x00, 0x00, 0x00, 0x00, 0x00, 0x00]"
  by (simp add: ref_codec_defs)

lemma ref_encode_long:
  "ref_Bech32_encode ''cosmospub''
     [0xEB, 0x5A, 0xE9, 0x87, 0x21, 0x04, 0x00, 0x00, 0x00, 0x00, 0x00, 0x00,
     0x00, 0x00, 0x00, 0x00, 0x00, 0x00, 0x00, 0x00, 0x00, 0x00, 0x00, 0x00,
     0x00, 0x00, 0x00, 0x00, 0x00, 0x00, 0x00, 0x00, 0x00, 0x00, 0x00, 0x00,
     0x00, 0x00, 0x00, 0x00, 0x00, 0x00, 0x00, 0x00, 0x00, 0x00, 0x00, 0x00,
     0x00, 0x00, 0x00, 0x00, 0x00, 0x00, 0x00, 0x00, 0x00, 0x00, 0x00, 0x00,
     0x00, 0x00, 0x00, 0x00, 0x00, 0x00, 0x00, 0x00, 0x00, 0x00] =
   Inl (Error ''Exceeds length limit'')"
  by (simp add: ref_codec_defs)

lemma ref_encode_key:
  "ref_Bech32_encode ''cosmospub''
     [0xEB, 0x5A, 0xE9, 0x87, 0x21, 0x03, 0x4F, 0x04, 0x18, 0x1E, 0xEB, 0xA3,
     0x53, 0x91, 0xB8, 0x58, 0x63, 0x3A, 0x76, 0x5C, 0x4A, 0x0C, 0x18, 0x96,
     0x97, 0xB4, 0x0D, 0x21, 0x63, 0x54, 0xD5, 0x08, 0x90, 0xD3, 0x50, 0xC7,
     0x02, 0x90] =
   Inr ''cosmospub1addwnpepqd8sgxq7aw348ydctp3n5ajufgxp395hksxjzc6565yfp56scupfqhlgyg5''"
  by (simp add: ref_codec_defs)

lemma ref_encode_short:
  "ref_Bech32_encode ''cosmospub'' [0xEB, 0x5A, 0xE9, 0x87, 0x21, 0x01, 0x02] =
     Inr ''cosmospub1addwnpepqypq0q26ka''"
  by (simp add: ref_codec_defs)

lemma ref_decode_key:
  "ref_Bech32_decode ''cosmospub1addwnpepqd8sgxq7aw348ydctp3n5ajufgxp395hksxjzc6565yfp56scupfqhlgyg5'' =
     Inr (''cosmospub'', [0xEB, 0x5A, 0xE9, 0x87, 0x21, 0x03, 0x4F, 0x04, 0x18, 0x1E, 0xEB,
         0xA3, 0x53, 0x91, 0xB8, 0x58, 0x63, 0x3A, 0x76, 0x5C, 0x4A, 0x0C,
         0x18, 0x96, 0x97, 0xB4, 0x0D, 0x21, 0x63, 0x54, 0xD5, 0x08, 0x90,
         0xD3, 0x50, 0xC7, 0x02, 0x90])"
  by (simp add: ref_codec_defs)

lemma ref_decode_sr25519_key:
  "ref_Bech32_decode ''cosmospub1pha3qpgqqqqqqqqqqqqqqqqqqqqqqqqqqqqqqqqqqqqqqqqqqqqqqqqqqqsfq7ww'' =
     Inr (''cosmospub'', [0x0D, 0xFB, 0x10, 0x05, 0x00, 0x00, 0x00, 0x00, 0x00, 0x00, 0x00,
         0x00, 0x00, 0x00, 0x00, 0x00, 0x00, 0x00, 0x00, 0x00, 0x00, 0x00,
         0x00, 0x00, 0x00, 0x00, 0x00, 0x00, 0x00, 0x00, 0x00, 0x00, 0x00,
         0x00, 0x00, 0x00])"
  by (simp add: ref_codec_defs)

lemma ref_decode_sr25519_marker:
  "ref_Bech32_decode ''cosmospub1pha3qpgvvxks2'' =
     Inr (''cosmospub'', [0x0D, 0xFB, 0x10, 0x05])"
  by (simp add: ref_codec_defs)

lemma ref_decode_sr25519_short:
  "ref_Bech32_decode
     ''cosmospub1pha3qpgqqqqqqqqqqqqqqqqqqqqqqqqqqqqqqqqqqqqqqqqqqqqqqqqqz6k2n4'' =
     Inr (''cosmospub'',
       [0x0D, 0xFB, 0x10, 0x05, 0x00, 0x00, 0x00, 0x00, 0x00, 0x00, 0x00,
       0x00, 0x00, 0x00, 0x00, 0x00, 0x00, 0x00, 0x00, 0x00, 0x00, 0x00,
       0x00, 0x00, 0x00, 0x00, 0x00, 0x00, 0x00, 0x00, 0x00, 0x00, 0x00,
       0x00, 0x00])"
  by (simp add: ref_codec_defs)

lemma ref_decode_unknown:
  "ref_Bech32_decode ''cosmosvaloperpub1qypqxpq9qcrsjm63am'' =
     Inr (''cosmosvaloperpub'', [0x01, 0x02, 0x03, 0x04, 0x05, 0x06, 0x07])"
  by (simp add: ref_codec_defs)

lemma ref_decode_empty:
  "ref_Bech32_decode ''cosmospub1xr2l9e'' =
     Inr (''cosmospub'', [])"
  by (simp add: ref_codec_defs)

lemma ref_decode_address:
  "ref_Bech32_decode ''cosmos1pkptre7fdkl6gfrzlesjjvhxhlc3r4gmmk8rs6'' =
     Inr (''cosmos'', [0x0D, 0x82, 0xB1, 0xE7, 0xC9, 0x6D, 0xBF, 0xA4, 0x24, 0x62, 0xFE,
         0x61, 0x29, 0x32, 0xE6, 0xBF, 0xF1, 0x11, 0xD5, 0x1B])"
  by (simp add: ref_codec_defs)

subsection \<open>The decoder, branch by branch\<close>

text \<open>
  What \<^const>\<open>decodeBech32Pubkey\<close> returns once the bech32 text has decoded to a prefix
  of the accepted set: a function of the data alone, with the two slices written as
  \<^const>\<open>take\<close> and \<^const>\<open>drop\<close>.
\<close>

lemma decodeBech32Pubkey_accepted:
  assumes "Bech32_decode L bech = Inr (prefix, data)"
    and "isCosmosPubkeyBech32Prefix prefix"
  shows "decodeBech32Pubkey L bech =
    (if take 5 data = pubkeyAminoPrefixSecp256k1 then
       if length (drop 5 data) \<noteq> 33 then
         Inl (Error ''Invalid rest data length. Expected 33 bytes (compressed secp256k1 pubkey).'')
       else Inr \<lparr>type = secp256k1, value = toBase64 L (drop 5 data)\<rparr>
     else if take 5 data = pubkeyAminoPrefixEd25519 then
       if length (drop 5 data) \<noteq> 32 then
         Inl (Error ''Invalid rest data length. Expected 32 bytes (Ed25519 pubkey).'')
       else Inr \<lparr>type = ed25519, value = toBase64 L (drop 5 data)\<rparr>
     else if data = pubkeyAminoPrefixSr25519 then
       Inl (Error ''Invalid rest data length. Expected 32 bytes (Sr25519 pubkey).'')
     else Inl (Error (''Unsupported Pubkey type. Amino prefix: '' @ toHex L (take 5 data))))"
proof -
  have "length (drop 5 pubkeyAminoPrefixSr25519) \<noteq> 32"
    by (simp add: pubkeyAminoPrefixSr25519_def)
  then show ?thesis
    using assms by (auto simp: decodeBech32Pubkey_def Let_def take_eq_Sr25519)
qed

lemma decode_tagged_secp256k1:
  assumes "Bech32_decode L bech = Inr (prefix, pubkeyAminoPrefixSecp256k1 @ payload)"
    and "isCosmosPubkeyBech32Prefix prefix"
    and "length payload = 33"
  shows "decodeBech32Pubkey L bech = Inr \<lparr>type = secp256k1, value = toBase64 L payload\<rparr>"
  using assms(3)
  by (simp add: decodeBech32Pubkey_accepted [OF assms(1,2)] pubkeyAminoPrefixSecp256k1_def)

lemma decode_tagged_ed25519:
  assumes "Bech32_decode L bech = Inr (prefix, pubkeyAminoPrefixEd25519 @ payload)"
    and "isCosmosPubkeyBech32Prefix prefix"
    and "length payload = 32"
  shows "decodeBech32Pubkey L bech = Inr \<lparr>type = ed25519, value = toBase64 L payload\<rparr>"
  using assms(3)
  by (simp add: decodeBech32Pubkey_accepted [OF assms(1,2)] pubkeyAminoPrefixSecp256k1_def
      pubkeyAminoPrefixEd25519_def)

text \<open>
  Data made of the marker of secp256k1 or of ed25519 and a payload of another length
  than the required one is rejected on the length.
\<close>

lemma decode_tagged_secp256k1_wrong_length:
  assumes "Bech32_decode L bech = Inr (prefix, pubkeyAminoPrefixSecp256k1 @ payload)"
    and "isCosmosPubkeyBech32Prefix prefix"
    and "length payload \<noteq> 33"
  shows "decodeBech32Pubkey L bech =
    Inl (Error ''Invalid rest data length. Expected 33 bytes (compressed secp256k1 pubkey).'')"
  using assms(3)
  by (simp add: decodeBech32Pubkey_accepted [OF assms(1,2)] pubkeyAminoPrefixSecp256k1_def)

lemma decode_tagged_ed25519_wrong_length:
  assumes "Bech32_decode L bech = Inr (prefix, pubkeyAminoPrefixEd25519 @ payload)"
    and "isCosmosPubkeyBech32Prefix prefix"
    and "length payload \<noteq> 32"
  shows "decodeBech32Pubkey L bech =
    Inl (Error ''Invalid rest data length. Expected 32 bytes (Ed25519 pubkey).'')"
  using assms(3)
  by (simp add: decodeBech32Pubkey_accepted [OF assms(1,2)] pubkeyAminoPrefixSecp256k1_def
      pubkeyAminoPrefixEd25519_def)

subsection \<open>Round trip\<close>

text \<open>
  C1. For every 33-byte key \<open>k\<close> and every prefix \<open>p\<close> of the accepted set, encoding
  the secp256k1 public key of \<open>k\<close> with \<open>p\<close> and decoding the text again gives back
  that public key. The value of a public key is the base64 text of its bytes, so the
  key of \<open>k\<close> has the value \<open>toBase64 k\<close>. The external codecs enter with what they
  do at this input only: base64 decoding reads \<open>toBase64 k\<close> back as \<open>k\<close>, and the
  bech32 encoder accepts the pair and its text \<open>s\<close> decodes to the same pair.
\<close>

theorem bech32_roundtrip_secp256k1:
  assumes "length k = 33"
    and "p \<in> {''cosmospub'', ''cosmosvalconspub'', ''cosmosvaloperpub''}"
    and "fromBase64 L (toBase64 L k) = Inr k"
    and "Bech32_encode L p (pubkeyAminoPrefixSecp256k1 @ k) = Inr s"
    and "Bech32_decode L s = Inr (p, pubkeyAminoPrefixSecp256k1 @ k)"
  shows "encodeBech32Pubkey L \<lparr>type = secp256k1, value = toBase64 L k\<rparr> p = Inr s
    \<and> decodeBech32Pubkey L s = Inr \<lparr>type = secp256k1, value = toBase64 L k\<rparr>"
proof
  show "encodeBech32Pubkey L \<lparr>type = secp256k1, value = toBase64 L k\<rparr> p = Inr s"
    using assms(3,4) by (simp add: encodeBech32Pubkey_def)
next
  have "isCosmosPubkeyBech32Prefix p"
    using assms(2) by (simp only: isCosmosPubkeyBech32Prefix_iff)
  from decode_tagged_secp256k1 [OF assms(5) this assms(1)]
  show "decodeBech32Pubkey L s = Inr \<lparr>type = secp256k1, value = toBase64 L k\<rparr>" .
qed

theorem bech32_roundtrip_secp256k1_witness:
  "encodeBech32Pubkey refEncoding
     \<lparr>type = secp256k1, value = ''A08EGB7ro1ORuFhjOnZcSgwYlpe0DSFjVNUIkNNQxwKQ''\<rparr> ''cosmospub'' =
     Inr ''cosmospub1addwnpepqd8sgxq7aw348ydctp3n5ajufgxp395hksxjzc6565yfp56scupfqhlgyg5''
   \<and> decodeBech32Pubkey refEncoding
       ''cosmospub1addwnpepqd8sgxq7aw348ydctp3n5ajufgxp395hksxjzc6565yfp56scupfqhlgyg5'' =
     Inr \<lparr>type = secp256k1, value = ''A08EGB7ro1ORuFhjOnZcSgwYlpe0DSFjVNUIkNNQxwKQ''\<rparr>"
  using bech32_roundtrip_secp256k1
    [of "[0x03, 0x4F, 0x04, 0x18, 0x1E, 0xEB, 0xA3, 0x53, 0x91, 0xB8, 0x58,
          0x63, 0x3A, 0x76, 0x5C, 0x4A, 0x0C, 0x18, 0x96, 0x97, 0xB4, 0x0D,
          0x21, 0x63, 0x54, 0xD5, 0x08, 0x90, 0xD3, 0x50, 0xC7, 0x02, 0x90]"
      "''cosmospub''" refEncoding
      "''cosmospub1addwnpepqd8sgxq7aw348ydctp3n5ajufgxp395hksxjzc6565yfp56scupfqhlgyg5''"]
  by (simp add: refEncoding_def pubkeyAminoPrefixSecp256k1_def ref_toBase64_key
      ref_fromBase64_key ref_encode_key ref_decode_key)

text \<open>
  C2. Decoding data made of an algorithm's marker followed by a payload of the required
  length returns that algorithm and payload. The lemmas \<open>decode_tagged_secp256k1\<close> and
  \<open>decode_tagged_ed25519\<close> show it for two of the three algorithms. For sr25519 the
  code does something else: the marker constant has four bytes, the decoder cuts five,
  the cut matches no marker, and every such input is rejected as an unsupported type,
  the message showing the marker and the first byte of the payload.
\<close>

theorem decode_tagged_sr25519_rejected:
  assumes "Bech32_decode L bech = Inr (prefix, pubkeyAminoPrefixSr25519 @ payload)"
    and "isCosmosPubkeyBech32Prefix prefix"
    and "length payload = 32"
  shows "decodeBech32Pubkey L bech =
    Inl (Error (''Unsupported Pubkey type. Amino prefix: ''
                @ toHex L (pubkeyAminoPrefixSr25519 @ take 1 payload)))"
proof -
  from assms(3) obtain b rest where "payload = b # rest"
    by (cases payload) simp_all
  with assms(3) show ?thesis
    by (simp add: decodeBech32Pubkey_accepted [OF assms(1,2)] pubkeyAminoPrefixSecp256k1_def
        pubkeyAminoPrefixEd25519_def pubkeyAminoPrefixSr25519_def)
qed

theorem decode_tagged_sr25519_rejected_witness:
  "decodeBech32Pubkey refEncoding
     ''cosmospub1pha3qpgqqqqqqqqqqqqqqqqqqqqqqqqqqqqqqqqqqqqqqqqqqqqqqqqqqqsfq7ww'' =
     Inl (Error ''Unsupported Pubkey type. Amino prefix: 0dfb100500'')"
  using decode_tagged_sr25519_rejected
    [of refEncoding
      "''cosmospub1pha3qpgqqqqqqqqqqqqqqqqqqqqqqqqqqqqqqqqqqqqqqqqqqqqqqqqqqqsfq7ww''"
      "''cosmospub''"
      "[0x00, 0x00, 0x00, 0x00, 0x00, 0x00, 0x00, 0x00, 0x00, 0x00, 0x00,
       0x00, 0x00, 0x00, 0x00, 0x00, 0x00, 0x00, 0x00, 0x00, 0x00, 0x00,
       0x00, 0x00, 0x00, 0x00, 0x00, 0x00, 0x00, 0x00, 0x00, 0x00]"]
  by (simp add: refEncoding_def isCosmosPubkeyBech32Prefix_iff pubkeyAminoPrefixSr25519_def
      hexDigits_def ref_toHex.simps ref_decode_sr25519_key)

subsection \<open>The markers\<close>

text \<open>
  C3. The three markers have one length, the length the decoder cuts. In the code the
  markers of secp256k1 and ed25519 have the five bytes the decoder cuts, and the marker
  of sr25519 has four.
\<close>

theorem sr25519_marker_length_differs:
  "length pubkeyAminoPrefixSecp256k1 = pubkeyAminoPrefixLength
   \<and> length pubkeyAminoPrefixEd25519 = pubkeyAminoPrefixLength
   \<and> pubkeyAminoPrefixLength = 5
   \<and> length pubkeyAminoPrefixSr25519 = 4"
  by (simp add: pubkeyAminoPrefixLength_def pubkeyAminoPrefixSecp256k1_def
      pubkeyAminoPrefixEd25519_def pubkeyAminoPrefixSr25519_def)

subsection \<open>Rejections of the decoder\<close>

text \<open>
  C4. When the bech32 text decodes to a prefix outside the accepted set, the decoder
  fails with the message that lists the accepted prefixes. The result is the same for
  every data payload: the payload is not looked at.
\<close>

theorem decode_invalid_prefix:
  assumes "Bech32_decode L bech = Inr (prefix, data)"
    and "prefix \<notin> {''cosmospub'', ''cosmosvalconspub'', ''cosmosvaloperpub''}"
  shows "decodeBech32Pubkey L bech =
    Inl (Error ''Invalid bech32 prefix. Must be one of cosmospub, cosmosvalconspub, cosmosvaloperpub.'')"
proof -
  have "\<not> isCosmosPubkeyBech32Prefix prefix"
    using assms(2) by (simp only: isCosmosPubkeyBech32Prefix_iff not_False_eq_True)
  then show ?thesis
    using assms(1) by (simp add: decodeBech32Pubkey_def join_validPubkeyPrefixes)
qed

theorem decode_invalid_prefix_witness:
  "decodeBech32Pubkey refEncoding ''cosmos1pkptre7fdkl6gfrzlesjjvhxhlc3r4gmmk8rs6'' =
     Inl (Error ''Invalid bech32 prefix. Must be one of cosmospub, cosmosvalconspub, cosmosvaloperpub.'')"
  using decode_invalid_prefix
    [of refEncoding "''cosmos1pkptre7fdkl6gfrzlesjjvhxhlc3r4gmmk8rs6''" "''cosmos''"
      "[0x0D, 0x82, 0xB1, 0xE7, 0xC9, 0x6D, 0xBF, 0xA4, 0x24, 0x62, 0xFE,
       0x61, 0x29, 0x32, 0xE6, 0xBF, 0xF1, 0x11, 0xD5, 0x1B]"]
  by (simp add: refEncoding_def ref_decode_address)

text \<open>
  C5. When the marker of an algorithm is followed by a payload that does not have the
  length that algorithm requires, the decoder fails with the message that names the
  expected length and the algorithm. The lemmas \<open>decode_tagged_secp256k1_wrong_length\<close>
  and \<open>decode_tagged_ed25519_wrong_length\<close> show it for secp256k1 and ed25519. For
  sr25519 the code does something else: the marker constant has four bytes, the decoder
  cuts five, and the marker followed by any payload that is not empty is rejected as an
  unsupported type, not on its length.
\<close>

theorem decode_tagged_sr25519_wrong_length:
  assumes "Bech32_decode L bech = Inr (prefix, pubkeyAminoPrefixSr25519 @ payload)"
    and "isCosmosPubkeyBech32Prefix prefix"
    and "payload \<noteq> []"
    and "length payload \<noteq> 32"
  shows "decodeBech32Pubkey L bech =
      Inl (Error (''Unsupported Pubkey type. Amino prefix: ''
                  @ toHex L (pubkeyAminoPrefixSr25519 @ take 1 payload)))
    \<and> decodeBech32Pubkey L bech \<noteq>
      Inl (Error ''Invalid rest data length. Expected 32 bytes (Sr25519 pubkey).'')"
proof -
  from assms(3) obtain b rest where "payload = b # rest"
    by (cases payload) simp_all
  then show ?thesis
    by (simp add: decodeBech32Pubkey_accepted [OF assms(1,2)] pubkeyAminoPrefixSecp256k1_def
        pubkeyAminoPrefixEd25519_def pubkeyAminoPrefixSr25519_def)
qed

theorem decode_tagged_sr25519_wrong_length_witness:
  "decodeBech32Pubkey refEncoding
     ''cosmospub1pha3qpgqqqqqqqqqqqqqqqqqqqqqqqqqqqqqqqqqqqqqqqqqqqqqqqqqz6k2n4'' =
     Inl (Error ''Unsupported Pubkey type. Amino prefix: 0dfb100500'')
   \<and> decodeBech32Pubkey refEncoding
       ''cosmospub1pha3qpgqqqqqqqqqqqqqqqqqqqqqqqqqqqqqqqqqqqqqqqqqqqqqqqqqz6k2n4'' \<noteq>
     Inl (Error ''Invalid rest data length. Expected 32 bytes (Sr25519 pubkey).'')"
  using decode_tagged_sr25519_wrong_length
    [of refEncoding
      "''cosmospub1pha3qpgqqqqqqqqqqqqqqqqqqqqqqqqqqqqqqqqqqqqqqqqqqqqqqqqqz6k2n4''"
      "''cosmospub''"
      "[0x00, 0x00, 0x00, 0x00, 0x00, 0x00, 0x00, 0x00, 0x00, 0x00, 0x00,
       0x00, 0x00, 0x00, 0x00, 0x00, 0x00, 0x00, 0x00, 0x00, 0x00, 0x00,
       0x00, 0x00, 0x00, 0x00, 0x00, 0x00, 0x00, 0x00, 0x00]"]
  by (simp add: refEncoding_def isCosmosPubkeyBech32Prefix_iff pubkeyAminoPrefixSr25519_def
      hexDigits_def ref_toHex.simps ref_decode_sr25519_short)

text \<open>
  C6. When the bytes the decoder cuts as the marker equal none of the three markers,
  the decoder fails with the message for an unsupported type, which ends with the hex
  text of the bytes it cut.
\<close>

theorem decode_unsupported_marker:
  assumes "Bech32_decode L bech = Inr (prefix, data)"
    and "isCosmosPubkeyBech32Prefix prefix"
    and "slice_range data 0 pubkeyAminoPrefixLength \<notin>
           {pubkeyAminoPrefixSecp256k1, pubkeyAminoPrefixEd25519, pubkeyAminoPrefixSr25519}"
  shows "decodeBech32Pubkey L bech =
    Inl (Error (''Unsupported Pubkey type. Amino prefix: ''
                @ toHex L (slice_range data 0 pubkeyAminoPrefixLength)))"
  using assms(3)
  by (simp add: decodeBech32Pubkey_accepted [OF assms(1,2)] take_eq_Sr25519)

theorem decode_unsupported_marker_witness:
  "decodeBech32Pubkey refEncoding ''cosmosvaloperpub1qypqxpq9qcrsjm63am'' =
     Inl (Error ''Unsupported Pubkey type. Amino prefix: 0102030405'')"
  using decode_unsupported_marker
    [of refEncoding "''cosmosvaloperpub1qypqxpq9qcrsjm63am''" "''cosmosvaloperpub''"
      "[0x01, 0x02, 0x03, 0x04, 0x05, 0x06, 0x07]"]
  by (simp add: refEncoding_def isCosmosPubkeyBech32Prefix_iff pubkeyAminoPrefixSecp256k1_def
      pubkeyAminoPrefixEd25519_def pubkeyAminoPrefixSr25519_def hexDigits_def ref_toHex.simps
      ref_decode_unknown)

subsection \<open>The encoder\<close>

text \<open>
  C7. A public key whose algorithm is not secp256k1 is not encoded: for every prefix the
  encoder fails with the message for an unsupported type, whatever the codecs do.
\<close>

theorem encode_unsupported_algorithm:
  assumes "type pubkey \<noteq> secp256k1"
  shows "encodeBech32Pubkey L pubkey prefix = Inl (Error ''Unsupported pubkey type'')"
  using assms by (cases "type pubkey") (simp_all add: encodeBech32Pubkey_def)

theorem encode_unsupported_algorithm_witness:
  "encodeBech32Pubkey refEncoding
     \<lparr>type = ed25519, value = ''AAAAAAAAAAAAAAAAAAAAAAAAAAAAAAAAAAAAAAAAAAA=''\<rparr> ''cosmospub'' =
     Inl (Error ''Unsupported pubkey type'')
   \<and> encodeBech32Pubkey refEncoding
       \<lparr>type = sr25519, value = ''AAAAAAAAAAAAAAAAAAAAAAAAAAAAAAAAAAAAAAAAAAA=''\<rparr> ''cosmospub'' =
     Inl (Error ''Unsupported pubkey type'')"
  using encode_unsupported_algorithm
    [of "\<lparr>type = ed25519, value = ''AAAAAAAAAAAAAAAAAAAAAAAAAAAAAAAAAAAAAAAAAAA=''\<rparr>"
      refEncoding "''cosmospub''"]
    encode_unsupported_algorithm
    [of "\<lparr>type = sr25519, value = ''AAAAAAAAAAAAAAAAAAAAAAAAAAAAAAAAAAAAAAAAAAA=''\<rparr>"
      refEncoding "''cosmospub''"]
  by simp

text \<open>
  C8. The encoder has no check of its own on the length of a secp256k1 key. For key
  bytes \<open>k\<close> of any length, read from the value of the public key by base64 decoding,
  the result of the encoder is the result of the bech32 encoder on the prefix and the
  data made of the secp256k1 marker followed by \<open>k\<close>: the text when the bech32 encoder
  returns one, and its error when it fails. The call can still fail on a long key, by
  the limit of the bech32 encoder, as \<open>encode_long_key_counterexample\<close> shows.
\<close>

theorem encode_secp256k1_any_length:
  assumes "type pubkey = secp256k1"
    and "fromBase64 L (value pubkey) = Inr k"
  shows "encodeBech32Pubkey L pubkey prefix =
    Bech32_encode L prefix (pubkeyAminoPrefixSecp256k1 @ k)"
  using assms by (simp add: encodeBech32Pubkey_def)

theorem encode_secp256k1_any_length_witness:
  "length [0x01, 0x02 :: byte] \<noteq> 33
   \<and> fromBase64 refEncoding ''AQI='' = Inr [0x01, 0x02]
   \<and> encodeBech32Pubkey refEncoding \<lparr>type = secp256k1, value = ''AQI=''\<rparr> ''cosmospub'' =
     Inr ''cosmospub1addwnpepqypq0q26ka''"
  using encode_secp256k1_any_length
    [of "\<lparr>type = secp256k1, value = ''AQI=''\<rparr>" refEncoding "[0x01, 0x02]" "''cosmospub''"]
  by (simp add: refEncoding_def pubkeyAminoPrefixSecp256k1_def ref_fromBase64_short
      ref_encode_short)

text \<open>
  With the reference codecs, whose bech32 encoder has the limit of 90 characters of the
  bech32 package, the uncompressed form of a key, 65 bytes, is not encoded: the call
  fails, and the length of the key is the reason.
\<close>

theorem encode_long_key_counterexample:
  "fromBase64 refEncoding
     ''BAAAAAAAAAAAAAAAAAAAAAAAAAAAAAAAAAAAAAAAAAAAAAAAAAAAAAAAAAAAAAAAAAAAAAAAAAAAAAAAAAAAAAA='' =
     Inr [0x04, 0x00, 0x00, 0x00, 0x00, 0x00, 0x00, 0x00, 0x00, 0x00, 0x00,
         0x00, 0x00, 0x00, 0x00, 0x00, 0x00, 0x00, 0x00, 0x00, 0x00, 0x00,
         0x00, 0x00, 0x00, 0x00, 0x00, 0x00, 0x00, 0x00, 0x00, 0x00, 0x00,
         0x00, 0x00, 0x00, 0x00, 0x00, 0x00, 0x00, 0x00, 0x00, 0x00, 0x00,
         0x00, 0x00, 0x00, 0x00, 0x00, 0x00, 0x00, 0x00, 0x00, 0x00, 0x00,
         0x00, 0x00, 0x00, 0x00, 0x00, 0x00, 0x00, 0x00, 0x00, 0x00]
   \<and> encodeBech32Pubkey refEncoding
       \<lparr>type = secp256k1,
          value = ''BAAAAAAAAAAAAAAAAAAAAAAAAAAAAAAAAAAAAAAAAAAAAAAAAAAAAAAAAAAAAAAAAAAAAAAAAAAAAAAAAAAAAAA=''\<rparr>
       ''cosmospub'' =
     Inl (Error ''Exceeds length limit'')"
  by (simp add: encodeBech32Pubkey_def refEncoding_def pubkeyAminoPrefixSecp256k1_def
      ref_fromBase64_long ref_encode_long)

subsection \<open>The sr25519 branch and short data\<close>

text \<open>
  C9. The decoder never returns a public key of type sr25519. The comparison of the
  sr25519 branch holds only when the data is the four-byte marker and nothing else, and
  then the remaining bytes are none, not 32, and the decoder fails on the length.
\<close>

theorem decode_never_sr25519:
  "(\<forall>pubkey. decodeBech32Pubkey L bech = Inr pubkey \<longrightarrow> type pubkey \<noteq> sr25519)
   \<and> (equal_bytes (slice_range data 0 pubkeyAminoPrefixLength) pubkeyAminoPrefixSr25519
        \<longleftrightarrow> data = pubkeyAminoPrefixSr25519)
   \<and> (Bech32_decode L bech = Inr (prefix, pubkeyAminoPrefixSr25519)
        \<and> isCosmosPubkeyBech32Prefix prefix \<longrightarrow>
          decodeBech32Pubkey L bech =
            Inl (Error ''Invalid rest data length. Expected 32 bytes (Sr25519 pubkey).''))"
proof (intro conjI allI impI)
  fix pubkey
  assume ok: "decodeBech32Pubkey L bech = Inr pubkey"
  show "type pubkey \<noteq> sr25519"
  proof (cases "Bech32_decode L bech")
    case (Inl e)
    with ok show ?thesis
      by (simp add: decodeBech32Pubkey_def)
  next
    case (Inr r)
    obtain prefix' data' where r: "r = (prefix', data')"
      by (cases r)
    show ?thesis
    proof (cases "isCosmosPubkeyBech32Prefix prefix'")
      case True
      from Inr r have "Bech32_decode L bech = Inr (prefix', data')"
        by simp
      from decodeBech32Pubkey_accepted [OF this True] ok show ?thesis
        by (auto split: if_splits)
    next
      case False
      with Inr r ok show ?thesis
        by (simp add: decodeBech32Pubkey_def)
    qed
  qed
next
  show "equal_bytes (slice_range data 0 pubkeyAminoPrefixLength) pubkeyAminoPrefixSr25519
    \<longleftrightarrow> data = pubkeyAminoPrefixSr25519"
    by (simp add: take_eq_Sr25519)
next
  assume "Bech32_decode L bech = Inr (prefix, pubkeyAminoPrefixSr25519)
    \<and> isCosmosPubkeyBech32Prefix prefix"
  then have dec: "Bech32_decode L bech = Inr (prefix, pubkeyAminoPrefixSr25519)"
    and acc: "isCosmosPubkeyBech32Prefix prefix"
    by simp_all
  show "decodeBech32Pubkey L bech =
      Inl (Error ''Invalid rest data length. Expected 32 bytes (Sr25519 pubkey).'')"
    by (simp add: decodeBech32Pubkey_accepted [OF dec acc] pubkeyAminoPrefixSecp256k1_def
        pubkeyAminoPrefixEd25519_def pubkeyAminoPrefixSr25519_def)
qed

theorem decode_never_sr25519_witness:
  "decodeBech32Pubkey refEncoding
     ''cosmospub1addwnpepqd8sgxq7aw348ydctp3n5ajufgxp395hksxjzc6565yfp56scupfqhlgyg5'' =
     Inr \<lparr>type = secp256k1, value = ''A08EGB7ro1ORuFhjOnZcSgwYlpe0DSFjVNUIkNNQxwKQ''\<rparr>
   \<and> type \<lparr>type = secp256k1, value = ''A08EGB7ro1ORuFhjOnZcSgwYlpe0DSFjVNUIkNNQxwKQ''\<rparr>
       \<noteq> sr25519
   \<and> decodeBech32Pubkey refEncoding ''cosmospub1pha3qpgvvxks2'' =
     Inl (Error ''Invalid rest data length. Expected 32 bytes (Sr25519 pubkey).'')"
  using decode_never_sr25519
    [of refEncoding "''cosmospub1pha3qpgvvxks2''" "[]" "''cosmospub''"]
    decode_never_sr25519
    [of refEncoding
      "''cosmospub1addwnpepqd8sgxq7aw348ydctp3n5ajufgxp395hksxjzc6565yfp56scupfqhlgyg5''"
      "[]" "''cosmospub''"]
    decode_tagged_secp256k1
    [of refEncoding
      "''cosmospub1addwnpepqd8sgxq7aw348ydctp3n5ajufgxp395hksxjzc6565yfp56scupfqhlgyg5''"
      "''cosmospub''"
      "[0x03, 0x4F, 0x04, 0x18, 0x1E, 0xEB, 0xA3, 0x53, 0x91, 0xB8, 0x58,
       0x63, 0x3A, 0x76, 0x5C, 0x4A, 0x0C, 0x18, 0x96, 0x97, 0xB4, 0x0D,
       0x21, 0x63, 0x54, 0xD5, 0x08, 0x90, 0xD3, 0x50, 0xC7, 0x02, 0x90]"]
  by (simp add: refEncoding_def isCosmosPubkeyBech32Prefix_iff pubkeyAminoPrefixSecp256k1_def
      pubkeyAminoPrefixSr25519_def ref_toBase64_key ref_decode_key ref_decode_sr25519_marker)

text \<open>
  C10. When the data is shorter than the five bytes of a marker, the empty data
  included, the two slices stay inside the data: the first is the whole data and the
  second is empty. The decoder then fails: on the length when the data is the four-byte
  marker of sr25519, and with the message for an unsupported type otherwise. It never
  returns a public key.
\<close>

theorem decode_short_data:
  assumes "Bech32_decode L bech = Inr (prefix, data)"
    and "isCosmosPubkeyBech32Prefix prefix"
    and "length data < pubkeyAminoPrefixLength"
  shows "slice_range data 0 pubkeyAminoPrefixLength = data
    \<and> slice_from data pubkeyAminoPrefixLength = []
    \<and> decodeBech32Pubkey L bech =
        (if data = pubkeyAminoPrefixSr25519 then
           Inl (Error ''Invalid rest data length. Expected 32 bytes (Sr25519 pubkey).'')
         else Inl (Error (''Unsupported Pubkey type. Amino prefix: '' @ toHex L data)))"
proof -
  from assms(3) have short: "length data < 5"
    by simp
  then have "data \<noteq> pubkeyAminoPrefixSecp256k1" and "data \<noteq> pubkeyAminoPrefixEd25519"
    by (auto simp: pubkeyAminoPrefixSecp256k1_def pubkeyAminoPrefixEd25519_def)
  with short show ?thesis
    by (simp add: decodeBech32Pubkey_accepted [OF assms(1,2)])
qed

theorem decode_short_data_witness:
  "decodeBech32Pubkey refEncoding ''cosmospub1xr2l9e'' =
     Inl (Error ''Unsupported Pubkey type. Amino prefix: '')
   \<and> decodeBech32Pubkey refEncoding ''cosmospub1pha3qpgvvxks2'' =
     Inl (Error ''Invalid rest data length. Expected 32 bytes (Sr25519 pubkey).'')"
  using decode_short_data [of refEncoding "''cosmospub1xr2l9e''" "''cosmospub''" "[]"]
    decode_short_data [of refEncoding "''cosmospub1pha3qpgvvxks2''" "''cosmospub''" "[0x0D, 0xFB, 0x10, 0x05]"]
  by (simp add: refEncoding_def isCosmosPubkeyBech32Prefix_iff pubkeyAminoPrefixSr25519_def
      ref_toHex.simps ref_decode_empty ref_decode_sr25519_marker)

end
